theory Spec2Isabelle
  imports Complex_Main "HOL-Library.AList"
begin

section \<open>The multiplayer client of \<^verbatim>\<open>src/game.js\<close>\<close>

text \<open>
  The class \<^verbatim>\<open>VikingSettlementTycoon\<close> keeps all its state in fields of one object and
  talks to the outside through a socket, the notification area and timers. The model is a
  record of those fields that the claims read or write, passed explicitly, and every
  method returns the new record together with the list of effects it produced, in order.

  JavaScript numbers are modelled as \<^typ>\<open>real\<close>: arithmetic is exact and every number is
  finite, so the \<^verbatim>\<open>isFinite\<close> guards of the source are always true in the model. The
  results of \<^verbatim>\<open>Math.floor\<close>, and the chunk coordinates of the server's payloads, are
  \<^typ>\<open>int\<close>. A JavaScript \<^verbatim>\<open>Map\<close> is an association list: \<^verbatim>\<open>get\<close> is \<^const>\<open>map_of\<close>,
  \<^verbatim>\<open>set\<close> is \<^const>\<open>AList.update\<close> (an existing key keeps its place, a new one goes last),
  \<^verbatim>\<open>delete\<close> is \<^const>\<open>AList.delete\<close>, iteration is the order of the list.
\<close>

subsection \<open>Data\<close>

record camera =
  cam_x :: real
  cam_y :: real
  cam_scale :: real

record resources =
  food :: real
  wood :: real
  iron :: real
  gold :: real

record scout =
  scout_id :: string
  scout_x :: real
  scout_y :: real
  exploring :: bool

text \<open>A chunk as the server sends it; the generated terrain content is left out.\<close>

record chunk =
  chunk_x :: int
  chunk_y :: int
  worldX :: real
  worldY :: real

text \<open>
  Modelled from the spec: the methods \<^verbatim>\<open>createChunkCanvas\<close> and \<^verbatim>\<open>createChunkDetailCanvas\<close>,
  which \<^verbatim>\<open>handleChunksData\<close> calls on every delivered chunk and which \<^verbatim>\<open>src/game.js\<close> does not
  define (with the class as it stands the call raises a \<^verbatim>\<open>TypeError\<close>). By section 3 of the
  spec a chunk holds two layers of terrain content supplied by the server, a base texture
  and a detail overlay; the two methods are taken to build these layers from the payload
  and to leave the state of the client alone. A layer is kept as the payload it is drawn
  from.
\<close>

datatype layer = BaseTexture chunk | DetailOverlay chunk

definition createChunkCanvas :: "chunk \<Rightarrow> layer" where
  "createChunkCanvas ch = BaseTexture ch"

definition createChunkDetailCanvas :: "chunk \<Rightarrow> layer" where
  "createChunkDetailCanvas ch = DetailOverlay ch"

text \<open>
  A chunk as the cache holds it, the object
  \<^verbatim>\<open>{...chunk, textureCanvas: ..., detailCanvas: ...}\<close> that \<^verbatim>\<open>handleChunksData\<close> stores.
\<close>

record cached_chunk = chunk +
  textureCanvas :: layer
  detailCanvas :: layer

definition cached :: "chunk \<Rightarrow> cached_chunk" where
  "cached ch =
     \<lparr>chunk_x = chunk_x ch, chunk_y = chunk_y ch, worldX = worldX ch, worldY = worldY ch,
      textureCanvas = createChunkCanvas ch, detailCanvas = createChunkDetailCanvas ch\<rparr>"

text \<open>
  A fog canvas: the alpha channel of the \<^verbatim>\<open>chunkSize\<close> by \<^verbatim>\<open>chunkSize\<close> canvas, one
  opacity per pixel (column, row). Only the pixels of the canvas are ever written.
\<close>

type_synonym fog_canvas = "int \<times> int \<Rightarrow> real"

record reveal_anim =
  anim_x :: real
  anim_y :: real
  radius :: real
  targetRadius :: real
  startTime :: real
  duration :: real
  chunkX :: int
  chunkY :: int

datatype outbound =
    UpdateCamera camera
  | PlaceBuilding "string option" real real
  | SendScout real real
  | RequestChunks "(int \<times> int) list"

datatype timer = Reconnect | ThrottleReset

datatype effect =
    Emit outbound
  | ShowNotification string string
  | SetTimeout timer nat

datatype error = TypeError

text \<open>
  \<open>socket\<close> is \<open>None\<close> for \<^verbatim>\<open>this.socket === null\<close> and \<open>Some id\<close> for a socket object
  whose \<^verbatim>\<open>id\<close> is \<open>id\<close>. \<open>inThrottle\<close> is the variable captured by the closure that
  \<^verbatim>\<open>throttle\<close> returns for \<^verbatim>\<open>throttledCameraUpdate\<close>.
\<close>

record game =
  socket :: "string option"
  isConnected :: bool
  reconnectAttempts :: nat
  camera :: camera
  canvas_width :: real
  canvas_height :: real
  resources :: resources
  population :: int
  scouts :: "scout list"
  selectedBuilding :: "string option"
  loadedChunks :: "(string \<times> cached_chunk) list"
  fogOfWar :: "(string \<times> fog_canvas) list"
  revealAnimations :: "reveal_anim list"
  inThrottle :: bool

definition maxReconnectAttempts :: nat where
  "maxReconnectAttempts = 5"

definition chunkSize :: int where
  "chunkSize = 512"

definition chunkLoadRadius :: int where
  "chunkLoadRadius = 3"

text \<open>The test \<^verbatim>\<open>this.socket && this.isConnected\<close>.\<close>

definition connected :: "game \<Rightarrow> bool" where
  "connected g = (socket g \<noteq> None \<and> isConnected g)"

subsection \<open>Reconnecting\<close>

text \<open>
  \<^verbatim>\<open>attemptReconnect\<close>: below the maximum the counter is incremented first and the delay
  is computed from the incremented counter; at the maximum only the notification is shown.
\<close>

definition attemptReconnect :: "game \<Rightarrow> game \<times> effect list" where
  "attemptReconnect g =
     (if reconnectAttempts g < maxReconnectAttempts then
        (let g' = g\<lparr>reconnectAttempts := reconnectAttempts g + 1\<rparr>;
             delay = min (1000 * 2 ^ reconnectAttempts g') 10000
         in (g', [SetTimeout Reconnect delay]))
      else (g, [ShowNotification ''Unable to reconnect. Please refresh the page.'' ''error'']))"

text \<open>The handler of the socket's \<^verbatim>\<open>disconnect\<close> event.\<close>

definition on_disconnect :: "game \<Rightarrow> game \<times> effect list" where
  "on_disconnect g =
     (let g1 = g\<lparr>isConnected := False\<rparr>;
          (g2, out) = attemptReconnect g1
      in (g2, ShowNotification ''Disconnected from server'' ''warning'' # out))"

text \<open>
  Consecutive failures: the \<^verbatim>\<open>disconnect\<close> handler run \<open>n\<close> times with no \<^verbatim>\<open>connect\<close>
  event in between; the result is the final state and what each failure produced.
\<close>

fun failures :: "nat \<Rightarrow> game \<Rightarrow> game \<times> effect list list" where
  "failures 0 g = (g, [])"
| "failures (Suc n) g =
     (let (g1, out) = on_disconnect g; (g2, outs) = failures n g1 in (g2, out # outs))"

text \<open>
  The state the constructor builds, before \<^verbatim>\<open>init\<close>; \<^verbatim>\<open>setupCanvas\<close> sets the size of the
  canvas from the window, here the two parameters.
\<close>

definition initial_game :: "real \<Rightarrow> real \<Rightarrow> game" where
  "initial_game w h =
     \<lparr>socket = None, isConnected = False, reconnectAttempts = 0,
      camera = \<lparr>cam_x = 0, cam_y = 0, cam_scale = 1\<rparr>,
      canvas_width = w, canvas_height = h,
      resources = \<lparr>food = 100, wood = 50, iron = 25, gold = 10\<rparr>,
      population = 5, scouts = [], selectedBuilding = None,
      loadedChunks = [], fogOfWar = [], revealAnimations = [], inThrottle = False\<rparr>"

subsection \<open>Coordinates\<close>

definition getChunkCoords :: "real \<Rightarrow> real \<Rightarrow> int \<times> int" where
  "getChunkCoords wx wy =
     (\<lfloor>wx / real_of_int chunkSize\<rfloor>, \<lfloor>wy / real_of_int chunkSize\<rfloor>)"

text \<open>How a template string prints an integer: decimal digits, a minus sign in front.\<close>

fun nat_digits :: "nat \<Rightarrow> string" where
  "nat_digits n =
     (if n < 10 then [''0123456789'' ! n]
      else nat_digits (n div 10) @ [''0123456789'' ! (n mod 10)])"

definition num_str :: "int \<Rightarrow> string" where
  "num_str i = (if i < 0 then CHR ''-'' # nat_digits (nat (- i)) else nat_digits (nat i))"

definition getChunkKey :: "int \<Rightarrow> int \<Rightarrow> string" where
  "getChunkKey cx cy = num_str cx @ '','' @ num_str cy"

definition screenToWorld :: "game \<Rightarrow> real \<Rightarrow> real \<Rightarrow> real \<times> real" where
  "screenToWorld g sx sy =
     (sx / cam_scale (camera g) + cam_x (camera g), sy / cam_scale (camera g) + cam_y (camera g))"

text \<open>Chebyshev distance between chunk coordinates.\<close>

definition cheb :: "int \<times> int \<Rightarrow> int \<times> int \<Rightarrow> int" where
  "cheb a b = max \<bar>fst a - fst b\<bar> \<bar>snd a - snd b\<bar>"

subsection \<open>Outbound requests\<close>

definition tryPlaceBuilding :: "game \<Rightarrow> real \<Rightarrow> real \<Rightarrow> game \<times> effect list" where
  "tryPlaceBuilding g screenX screenY =
     (if \<not> connected g then (g, [ShowNotification ''Not connected to server!'' ''error''])
      else
        (let (wx, wy) = screenToWorld g screenX screenY
         in (g, [Emit (PlaceBuilding (selectedBuilding g) wx wy)])))"

definition sendScoutToExplore :: "game \<Rightarrow> real \<Rightarrow> real \<Rightarrow> game \<times> effect list" where
  "sendScoutToExplore g tx ty =
     (if connected g then (g, [Emit (SendScout tx ty)])
      else (g, [ShowNotification ''Not connected to server!'' ''error'']))"

text \<open>
  \<^verbatim>\<open>throttledCameraUpdate\<close> is \<^verbatim>\<open>throttle(f, 100)\<close> for the function \<open>f\<close> below: outside a
  throttle window it calls \<open>f\<close>, closes the window and sets the timer that reopens it.
\<close>

definition cameraUpdate :: "game \<Rightarrow> game \<times> effect list" where
  "cameraUpdate g = (if connected g then (g, [Emit (UpdateCamera (camera g))]) else (g, []))"

definition throttledCameraUpdate :: "game \<Rightarrow> game \<times> effect list" where
  "throttledCameraUpdate g =
     (if \<not> inThrottle g then
        (let (g1, out) = cameraUpdate g
         in (g1\<lparr>inThrottle := True\<rparr>, out @ [SetTimeout ThrottleReset 100]))
      else (g, []))"

definition throttleReset :: "game \<Rightarrow> game" where
  "throttleReset g = g\<lparr>inThrottle := False\<rparr>"

subsection \<open>The chunk cache\<close>

text \<open>The chunk under the centre of the view.\<close>

definition cameraChunk :: "game \<Rightarrow> int \<times> int" where
  "cameraChunk g =
     getChunkCoords (cam_x (camera g) + canvas_width g / (2 * cam_scale (camera g)))
                    (cam_y (camera g) + canvas_height g / (2 * cam_scale (camera g)))"

text \<open>The two nested loops of \<^verbatim>\<open>loadNearbyChunks\<close>, \<open>x\<close> outside and \<open>y\<close> inside.\<close>

definition neededChunks :: "game \<Rightarrow> (int \<times> int) list" where
  "neededChunks g =
     (let (ccx, ccy) = cameraChunk g
      in concat (map (\<lambda>x. concat (map (\<lambda>y.
             if map_of (loadedChunks g) (getChunkKey x y) = None then [(x, y)] else [])
           [ccy - chunkLoadRadius .. ccy + chunkLoadRadius]))
         [ccx - chunkLoadRadius .. ccx + chunkLoadRadius]))"

definition unload_chunk :: "string \<Rightarrow> game \<Rightarrow> game" where
  "unload_chunk chunkKey g =
     g\<lparr>loadedChunks := AList.delete chunkKey (loadedChunks g),
       fogOfWar := AList.delete chunkKey (fogOfWar g)\<rparr>"

definition chunksToUnload :: "game \<Rightarrow> int \<Rightarrow> int \<Rightarrow> string list" where
  "chunksToUnload g centerChunkX centerChunkY =
     (let unloadDistance = chunkLoadRadius + 1
      in map fst (filter (\<lambda>(chunkKey, ch).
            max \<bar>chunk_x ch - centerChunkX\<bar> \<bar>chunk_y ch - centerChunkY\<bar> > unloadDistance)
          (loadedChunks g)))"

definition unloadDistantChunks :: "game \<Rightarrow> int \<Rightarrow> int \<Rightarrow> game" where
  "unloadDistantChunks g centerChunkX centerChunkY =
     fold unload_chunk (chunksToUnload g centerChunkX centerChunkY) g"

definition loadNearbyChunks :: "game \<Rightarrow> game \<times> effect list" where
  "loadNearbyChunks g =
     (let (ccx, ccy) = cameraChunk g;
          needed = neededChunks g;
          out = (if needed \<noteq> [] \<and> connected g then [Emit (RequestChunks needed)] else [])
      in (unloadDistantChunks g ccx ccy, out))"

subsection \<open>Inbound events\<close>

text \<open>
  The payload of \<^verbatim>\<open>player_updated\<close>; a field the event does not carry is \<open>None\<close>. The tests
  \<^verbatim>\<open>if (resources)\<close>, \<^verbatim>\<open>if (population)\<close> and \<^verbatim>\<open>if (scouts)\<close> are JavaScript truthiness:
  an object and an array are always truthy, the number 0 is falsy. The calls that redraw
  the resource and population displays write to the page only and are left out.
\<close>

record player_updated =
  pu_playerId :: string
  pu_resources :: "resources option"
  pu_population :: "int option"
  pu_scouts :: "scout list option"

definition handlePlayerUpdated :: "game \<Rightarrow> player_updated \<Rightarrow> error + game" where
  "handlePlayerUpdated g d =
     (case socket g of
        None \<Rightarrow> Inl TypeError
      | Some socket_id \<Rightarrow>
          if pu_playerId d = socket_id then
            (let g1 = (case pu_resources d of Some r \<Rightarrow> g\<lparr>resources := r\<rparr> | None \<Rightarrow> g);
                 g2 = (case pu_population d of
                         Some n \<Rightarrow> if n \<noteq> 0 then g1\<lparr>population := n\<rparr> else g1
                       | None \<Rightarrow> g1);
                 g3 = (case pu_scouts d of Some s \<Rightarrow> g2\<lparr>scouts := s\<rparr> | None \<Rightarrow> g2)
             in Inr g3)
          else Inr g)"

subsection \<open>Fog masks\<close>

text \<open>
  The drawing calls follow the canvas standard, on the alpha channel alone. A pixel
  \<open>(i, j)\<close> is sampled at its centre \<open>(i + 1/2, j + 1/2)\<close>. Filling with source alpha \<open>s\<close>
  under the default \<^verbatim>\<open>source-over\<close> makes a destination alpha \<open>d\<close> into \<open>s + d * (1 - s)\<close>;
  under \<^verbatim>\<open>destination-out\<close> it makes it \<open>d * (1 - s)\<close>.
\<close>

definition in_canvas :: "int \<times> int \<Rightarrow> bool" where
  "in_canvas p = (0 \<le> fst p \<and> fst p < chunkSize \<and> 0 \<le> snd p \<and> snd p < chunkSize)"

text \<open>A canvas just created is transparent.\<close>

definition new_canvas :: fog_canvas where
  "new_canvas = (\<lambda>p. 0)"

text \<open>\<^verbatim>\<open>fillRect(0, 0, chunkSize, chunkSize)\<close> with the fill style \<^verbatim>\<open>rgba(0, 0, 0, 0.9)\<close>.\<close>

definition fill_fog :: "fog_canvas \<Rightarrow> fog_canvas" where
  "fill_fog c = (\<lambda>p. if in_canvas p then 9 / 10 + c p * (1 - 9 / 10) else c p)"

definition initializeChunkFogOfWar :: "game \<Rightarrow> int \<Rightarrow> int \<Rightarrow> game" where
  "initializeChunkFogOfWar g cx cy =
     g\<lparr>fogOfWar := AList.update (getChunkKey cx cy) (fill_fog new_canvas) (fogOfWar g)\<rparr>"

text \<open>
  One element of \<^verbatim>\<open>chunks_data\<close>, then all of them in order. The chunk is stored with the two
  layers that the methods modelled above build for it.
\<close>

definition deliver_chunk :: "string \<times> chunk \<Rightarrow> game \<Rightarrow> game" where
  "deliver_chunk e g =
     (let chunkKey = fst e; ch = snd e;
          g1 = g\<lparr>loadedChunks := AList.update chunkKey (cached ch) (loadedChunks g)\<rparr>
      in if map_of (fogOfWar g1) chunkKey = None
         then initializeChunkFogOfWar g1 (chunk_x ch) (chunk_y ch) else g1)"

definition handleChunksData :: "game \<Rightarrow> (string \<times> chunk) list \<Rightarrow> game" where
  "handleChunksData g chunks = fold deliver_chunk chunks g"

text \<open>
  \<^verbatim>\<open>revealArea\<close>; the extra argument is the value of \<^verbatim>\<open>Date.now()\<close> at the call.
\<close>

definition revealArea :: "game \<Rightarrow> real \<Rightarrow> real \<Rightarrow> real \<Rightarrow> real \<Rightarrow> game" where
  "revealArea g now x y r =
     (let (cx, cy) = getChunkCoords x y;
          chunkKey = getChunkKey cx cy
      in case map_of (fogOfWar g) chunkKey of
           None \<Rightarrow> g
         | Some fogData \<Rightarrow>
             g\<lparr>revealAnimations := revealAnimations g @
                 [\<lparr>anim_x = x, anim_y = y, radius = 0, targetRadius = r, startTime = now,
                   duration = 800, chunkX = cx, chunkY = cy\<rparr>]\<rparr>)"

definition easeOutQuad :: "real \<Rightarrow> real" where
  "easeOutQuad t = 1 - (1 - t) * (1 - t)"

text \<open>
  The alpha of the radial gradient at the fraction \<open>t\<close> of its radius, interpolated between
  the colour stops 0.9 at 0, 0.5 at 0.7 and 0 at 1.
\<close>

definition gradient_alpha :: "real \<Rightarrow> real" where
  "gradient_alpha t =
     (if t \<le> 0 then 9 / 10
      else if t < 7 / 10 then 9 / 10 + (5 / 10 - 9 / 10) * (t / (7 / 10))
      else if t < 1 then 5 / 10 + (0 - 5 / 10) * ((t - 7 / 10) / (1 - 7 / 10))
      else 0)"

definition pixel_dist :: "int \<times> int \<Rightarrow> real \<Rightarrow> real \<Rightarrow> real" where
  "pixel_dist p lx ly =
     sqrt ((real_of_int (fst p) + 1 / 2 - lx)\<^sup>2 + (real_of_int (snd p) + 1 / 2 - ly)\<^sup>2)"

text \<open>
  The fill of the disc of radius \<open>r\<close> around \<open>(lx, ly)\<close> with the gradient, under
  \<^verbatim>\<open>destination-out\<close>. The opacity is an exact real; a canvas stores it as a byte and
  rounds after every fill, which the model leaves out.
\<close>

definition erase_disc :: "fog_canvas \<Rightarrow> real \<Rightarrow> real \<Rightarrow> real \<Rightarrow> fog_canvas" where
  "erase_disc c lx ly r =
     (\<lambda>p. if in_canvas p \<and> pixel_dist p lx ly \<le> r
          then c p * (1 - gradient_alpha (pixel_dist p lx ly / r)) else c p)"

text \<open>
  The body of the callback that \<^verbatim>\<open>updateRevealAnimations\<close> passes to \<^verbatim>\<open>filter\<close>, for one
  animation: the masks after it, the animation with its new radius, and whether the
  animation is kept.
\<close>

definition tick_anim ::
  "real \<Rightarrow> (string \<times> cached_chunk) list \<Rightarrow> (string \<times> fog_canvas) list \<Rightarrow> reveal_anim \<Rightarrow>
   (string \<times> fog_canvas) list \<times> reveal_anim \<times> bool" where
  "tick_anim now chunks fog anim =
     (let elapsed = now - startTime anim;
          progress = min (elapsed / duration anim) 1;
          anim' = anim\<lparr>radius := targetRadius anim * easeOutQuad progress\<rparr>;
          chunkKey = getChunkKey (chunkX anim') (chunkY anim');
          fog' = (case map_of fog chunkKey of
                    None \<Rightarrow> fog
                  | Some fogData \<Rightarrow>
                      (case map_of chunks chunkKey of
                         None \<Rightarrow> fog
                       | Some ch \<Rightarrow>
                           if radius anim' > 0 then
                             AList.update chunkKey
                               (erase_disc fogData (anim_x anim' - worldX ch)
                                  (anim_y anim' - worldY ch) (radius anim')) fog
                           else fog))
      in (fog', anim', progress < 1))"

fun tick_anims ::
  "real \<Rightarrow> (string \<times> cached_chunk) list \<Rightarrow> (string \<times> fog_canvas) list \<Rightarrow> reveal_anim list \<Rightarrow>
   (string \<times> fog_canvas) list \<times> reveal_anim list" where
  "tick_anims now chunks fog [] = (fog, [])"
| "tick_anims now chunks fog (a # as) =
     (let (fog1, a', keep) = tick_anim now chunks fog a;
          (fog2, rest) = tick_anims now chunks fog1 as
      in (fog2, if keep then a' # rest else rest))"

text \<open>\<^verbatim>\<open>updateRevealAnimations\<close>, with the value of \<^verbatim>\<open>Date.now()\<close> as argument.\<close>

definition updateRevealAnimations :: "game \<Rightarrow> real \<Rightarrow> game" where
  "updateRevealAnimations g now =
     (let (fog, anims) = tick_anims now (loadedChunks g) (fogOfWar g) (revealAnimations g)
      in g\<lparr>fogOfWar := fog, revealAnimations := anims\<rparr>)"

text \<open>Ticks at the given times, one after the other.\<close>

fun run_ticks :: "game \<Rightarrow> real list \<Rightarrow> game" where
  "run_ticks g [] = g"
| "run_ticks g (t # ts) = run_ticks (updateRevealAnimations g t) ts"

text \<open>
  A reveal at time \<open>t0\<close> followed by ticks at the given delays after \<open>t0\<close>. The reveal has
  run to completion when one of the delays has reached the duration of 800.
\<close>

definition reveal_and_run :: "game \<Rightarrow> real \<Rightarrow> real \<times> real \<times> real \<Rightarrow> real list \<Rightarrow> game" where
  "reveal_and_run g t0 rv delays =
     (case rv of (x, y, r) \<Rightarrow> run_ticks (revealArea g t0 x y r) (map (\<lambda>d. t0 + d) delays))"


text \<open>
  The \<^verbatim>\<open>onload\<close> callback of \<^verbatim>\<open>restoreFogOfWarFromServer\<close> for one entry of the saved data,
  and all of them in order. An entry is the chunk coordinate whose key it is stored under,
  as \<^verbatim>\<open>saveFogOfWarToServer\<close> writes it and \<^verbatim>\<open>split(',').map(Number)\<close> reads it back, with
  the alpha channel of the decoded image. \<^verbatim>\<open>clearRect\<close> makes the canvas transparent and
  \<^verbatim>\<open>drawImage\<close> draws the image over it.
\<close>

definition clear_canvas :: "fog_canvas \<Rightarrow> fog_canvas" where
  "clear_canvas c = (\<lambda>p. if in_canvas p then 0 else c p)"

definition draw_image :: "fog_canvas \<Rightarrow> fog_canvas \<Rightarrow> fog_canvas" where
  "draw_image img c = (\<lambda>p. if in_canvas p then img p + c p * (1 - img p) else c p)"

definition restore_entry :: "(int \<times> int) \<times> fog_canvas \<Rightarrow> game \<Rightarrow> game" where
  "restore_entry e g =
     (let chunkKey = getChunkKey (fst (fst e)) (snd (fst e));
          g1 = (if map_of (fogOfWar g) chunkKey = None
                then initializeChunkFogOfWar g (fst (fst e)) (snd (fst e)) else g)
      in case map_of (fogOfWar g1) chunkKey of
           None \<Rightarrow> g1
         | Some fogData \<Rightarrow>
             g1\<lparr>fogOfWar :=
                  AList.update chunkKey (draw_image (snd e) (clear_canvas fogData)) (fogOfWar g1)\<rparr>)"

definition restoreFogOfWarFromServer :: "game \<Rightarrow> ((int \<times> int) \<times> fog_canvas) list \<Rightarrow> game" where
  "restoreFogOfWarFromServer g fogOfWarData = fold restore_entry fogOfWarData g"

text \<open>\<^verbatim>\<open>this.fogOfWar.get(key)\<close>.\<close>

definition fog_mask :: "game \<Rightarrow> string \<Rightarrow> fog_canvas option" where
  "fog_mask g k = map_of (fogOfWar g) k"

subsection \<open>States used as examples\<close>

text \<open>
  A connected client with an 800 by 600 canvas, a chunk at the origin and one far away,
  each with its fresh mask.
\<close>

definition example_game :: game where
  "example_game = (initial_game 800 600)\<lparr>socket := Some ''me'', isConnected := True,
     loadedChunks :=
       [(''0,0'', cached \<lparr>chunk_x = 0, chunk_y = 0, worldX = 0, worldY = 0\<rparr>),
        (''10,10'', cached \<lparr>chunk_x = 10, chunk_y = 10, worldX = 5120, worldY = 5120\<rparr>)],
     fogOfWar := [(''0,0'', fill_fog new_canvas), (''10,10'', fill_fog new_canvas)]\<rparr>"

text \<open>The same client after it has lost its connection.\<close>

definition offline_game :: game where
  "offline_game = example_game\<lparr>isConnected := False\<rparr>"

text \<open>A connected client with a 1920 by 1080 canvas, its camera at the origin, nothing cached.\<close>

definition wide_game :: game where
  "wide_game = (initial_game 1920 1080)\<lparr>socket := Some ''me'', isConnected := True\<rparr>"

subsection \<open>The effect of ticks as factors\<close>

text \<open>
  The progress of an animation at a tick, as the callback computes it.
\<close>

definition anim_progress :: "real \<Rightarrow> reveal_anim \<Rightarrow> real" where
  "anim_progress now a = min ((now - startTime a) / duration a) 1"

text \<open>
  The factor by which the tick of one animation multiplies the opacity of pixel \<open>p\<close> of the mask
  stored under key \<open>k\<close>: the erasure of \<^const>\<open>erase_disc\<close> on the animation's own mask when its
  chunk is cached and its radius positive, and 1 everywhere else.
\<close>

definition anim_factor ::
  "real \<Rightarrow> (string \<times> cached_chunk) list \<Rightarrow> reveal_anim \<Rightarrow> string \<Rightarrow> int \<times> int \<Rightarrow> real" where
  "anim_factor now chunks a k p =
     (if k = getChunkKey (chunkX a) (chunkY a) then
        (case map_of chunks k of
           None \<Rightarrow> 1
         | Some ch \<Rightarrow>
             (let r = targetRadius a * easeOutQuad (anim_progress now a);
                  d = pixel_dist p (anim_x a - worldX ch) (anim_y a - worldY ch)
              in if r > 0 \<and> in_canvas p \<and> d \<le> r then 1 - gradient_alpha (d / r) else 1))
      else 1)"

text \<open>
  A canvas with every opacity multiplied by a factor.
\<close>

definition scale_canvas :: "(int \<times> int \<Rightarrow> real) \<Rightarrow> fog_canvas \<Rightarrow> fog_canvas" where
  "scale_canvas f c = (\<lambda>p. c p * f p)"

text \<open>
  The animations a tick keeps, with the radius it wrote into them.
\<close>

definition alive :: "real \<Rightarrow> reveal_anim list \<Rightarrow> reveal_anim list" where
  "alive now as =
     map (\<lambda>a. a\<lparr>radius := targetRadius a * easeOutQuad (anim_progress now a)\<rparr>)
       (filter (\<lambda>a. anim_progress now a < 1) as)"

text \<open>
  The factor of one tick of all the animations, and of a run of ticks.
\<close>

definition tick_factor ::
  "real \<Rightarrow> (string \<times> cached_chunk) list \<Rightarrow> reveal_anim list \<Rightarrow> string \<Rightarrow> int \<times> int \<Rightarrow> real" where
  "tick_factor now chunks as k p = prod_list (map (\<lambda>a. anim_factor now chunks a k p) as)"

fun run_factor ::
  "(string \<times> cached_chunk) list \<Rightarrow> reveal_anim list \<Rightarrow> real list \<Rightarrow> string \<Rightarrow> int \<times> int \<Rightarrow> real" where
  "run_factor chunks as [] k p = 1"
| "run_factor chunks as (t # ts) k p =
     tick_factor t chunks as k p * run_factor chunks (alive t as) ts k p"

text \<open>
  The animation that \<^verbatim>\<open>revealArea\<close> registers, and the key of the mask it looks up.
\<close>

definition reveal_anim_of :: "real \<Rightarrow> real \<Rightarrow> real \<Rightarrow> real \<Rightarrow> reveal_anim" where
  "reveal_anim_of now x y r =
     \<lparr>anim_x = x, anim_y = y, radius = 0, targetRadius = r, startTime = now, duration = 800,
      chunkX = fst (getChunkCoords x y), chunkY = snd (getChunkCoords x y)\<rparr>"

definition reveal_key :: "real \<Rightarrow> real \<Rightarrow> string" where
  "reveal_key x y = getChunkKey (fst (getChunkCoords x y)) (snd (getChunkCoords x y))"

text \<open>
  The example state after a reveal of radius 100 around the centre of the first pixel of chunk
  \<open>(0, 0)\<close>, run to completion by one tick after 800 milliseconds.
\<close>

definition revealed_game :: game where
  "revealed_game = reveal_and_run example_game 0 (1 / 2, 1 / 2, 100) [800]"

text \<open>
  The opacity of a pixel of the mask under a key, 0 when there is no mask.
\<close>

definition opacity :: "game \<Rightarrow> string \<Rightarrow> int \<times> int \<Rightarrow> real" where
  "opacity g k p = (case fog_mask g k of None \<Rightarrow> 0 | Some c \<Rightarrow> c p)"







section \<open>Theorems\<close>

lemma cached_fields [simp]:
  "chunk_x (cached ch) = chunk_x ch" "chunk_y (cached ch) = chunk_y ch"
  "worldX (cached ch) = worldX ch" "worldY (cached ch) = worldY ch"
  by (simp_all add: cached_def)

lemma attemptReconnect_below:
  "reconnectAttempts g < 5 \<Longrightarrow>
   attemptReconnect g =
     (g\<lparr>reconnectAttempts := reconnectAttempts g + 1\<rparr>,
      [SetTimeout Reconnect (min (1000 * 2 ^ (reconnectAttempts g + 1)) 10000)])"
  by (simp add: attemptReconnect_def maxReconnectAttempts_def Let_def)

lemma on_disconnect_step:
  "reconnectAttempts g = n \<Longrightarrow> n < 5 \<Longrightarrow>
   on_disconnect g =
     (g\<lparr>isConnected := False, reconnectAttempts := n + 1\<rparr>,
      [ShowNotification ''Disconnected from server'' ''warning'',
       SetTimeout Reconnect (min (1000 * 2 ^ (n + 1)) 10000)])"
  by (simp add: on_disconnect_def attemptReconnect_below)

lemma on_disconnect_exhausted:
  "reconnectAttempts g = 5 \<Longrightarrow>
   on_disconnect g =
     (g\<lparr>isConnected := False\<rparr>,
      [ShowNotification ''Disconnected from server'' ''warning'',
       ShowNotification ''Unable to reconnect. Please refresh the page.'' ''error''])"
  by (simp add: on_disconnect_def attemptReconnect_def maxReconnectAttempts_def)

text \<open>
  C3. From a counter of 0, six consecutive failures schedule reconnects after 2000, 4000,
  8000, 10000 and 10000 milliseconds, each delay being \<open>min (1000 * 2 ^ n) 10000\<close> for the
  incremented counter \<open>n\<close>, and the sixth schedules nothing: it only reports the failure.
  The state it leaves has the counter at the maximum, and there every further call of
  \<^verbatim>\<open>attemptReconnect\<close> changes nothing and reports again, with no timer.
\<close>

theorem reconnect_backoff_sequence:
  assumes "reconnectAttempts g = 0"
  shows "failures 6 g =
     (g\<lparr>isConnected := False, reconnectAttempts := 5\<rparr>,
      [[ShowNotification ''Disconnected from server'' ''warning'', SetTimeout Reconnect 2000],
       [ShowNotification ''Disconnected from server'' ''warning'', SetTimeout Reconnect 4000],
       [ShowNotification ''Disconnected from server'' ''warning'', SetTimeout Reconnect 8000],
       [ShowNotification ''Disconnected from server'' ''warning'', SetTimeout Reconnect 10000],
       [ShowNotification ''Disconnected from server'' ''warning'', SetTimeout Reconnect 10000],
       [ShowNotification ''Disconnected from server'' ''warning'',
        ShowNotification ''Unable to reconnect. Please refresh the page.'' ''error'']])
   \<and> (\<forall>n < 5. \<forall>h. reconnectAttempts h = n \<longrightarrow>
          snd (attemptReconnect h) = [SetTimeout Reconnect (min (1000 * 2 ^ (n + 1)) 10000)])
   \<and> attemptReconnect (fst (failures 6 g)) =
       (fst (failures 6 g),
        [ShowNotification ''Unable to reconnect. Please refresh the page.'' ''error''])"
proof -
  have six: "(6::nat) = Suc (Suc (Suc (Suc (Suc (Suc 0)))))"
    by simp
  have run: "failures 6 g =
     (g\<lparr>isConnected := False, reconnectAttempts := 5\<rparr>,
      [[ShowNotification ''Disconnected from server'' ''warning'', SetTimeout Reconnect 2000],
       [ShowNotification ''Disconnected from server'' ''warning'', SetTimeout Reconnect 4000],
       [ShowNotification ''Disconnected from server'' ''warning'', SetTimeout Reconnect 8000],
       [ShowNotification ''Disconnected from server'' ''warning'', SetTimeout Reconnect 10000],
       [ShowNotification ''Disconnected from server'' ''warning'', SetTimeout Reconnect 10000],
       [ShowNotification ''Disconnected from server'' ''warning'',
        ShowNotification ''Unable to reconnect. Please refresh the page.'' ''error'']])"
    unfolding six using assms
    by (simp add: on_disconnect_step on_disconnect_exhausted)
  have formula: "\<forall>n < 5. \<forall>h. reconnectAttempts h = n \<longrightarrow>
          snd (attemptReconnect h) = [SetTimeout Reconnect (min (1000 * 2 ^ (n + 1)) 10000)]"
    by (simp add: attemptReconnect_below)
  have terminal: "attemptReconnect (fst (failures 6 g)) =
       (fst (failures 6 g),
        [ShowNotification ''Unable to reconnect. Please refresh the page.'' ''error''])"
    by (simp add: run attemptReconnect_def maxReconnectAttempts_def)
  from run formula terminal show ?thesis
    by blast
qed

theorem reconnect_backoff_sequence_witness:
  "reconnectAttempts (initial_game 800 600) = 0
   \<and> snd (failures 6 (initial_game 800 600)) ! 3 =
       [ShowNotification ''Disconnected from server'' ''warning'', SetTimeout Reconnect 10000]
   \<and> snd (failures 6 (initial_game 800 600)) ! 5 =
       [ShowNotification ''Disconnected from server'' ''warning'',
        ShowNotification ''Unable to reconnect. Please refresh the page.'' ''error'']
   \<and> reconnectAttempts (fst (failures 6 (initial_game 800 600))) = 5
   \<and> snd (attemptReconnect ((initial_game 800 600)\<lparr>reconnectAttempts := 2\<rparr>)) =
       [SetTimeout Reconnect 8000]"
proof -
  have zero: "reconnectAttempts (initial_game 800 600) = 0"
    by (simp add: initial_game_def)
  note run = reconnect_backoff_sequence [OF zero]
  have two: "reconnectAttempts ((initial_game 800 600)\<lparr>reconnectAttempts := 2\<rparr>) = 2"
    by simp
  have formula: "\<forall>n < 5. \<forall>h. reconnectAttempts h = n \<longrightarrow>
          snd (attemptReconnect h) = [SetTimeout Reconnect (min (1000 * 2 ^ (n + 1)) 10000)]"
    using run by (rule conjunct1 [OF conjunct2])
  have "(2::nat) < 5"
    by simp
  then have "snd (attemptReconnect ((initial_game 800 600)\<lparr>reconnectAttempts := 2\<rparr>)) =
       [SetTimeout Reconnect (min (1000 * 2 ^ (2 + 1)) 10000)]"
    using formula [rule_format, of 2] two by blast
  moreover have "failures 6 (initial_game 800 600) =
     ((initial_game 800 600)\<lparr>isConnected := False, reconnectAttempts := 5\<rparr>,
      [[ShowNotification ''Disconnected from server'' ''warning'', SetTimeout Reconnect 2000],
       [ShowNotification ''Disconnected from server'' ''warning'', SetTimeout Reconnect 4000],
       [ShowNotification ''Disconnected from server'' ''warning'', SetTimeout Reconnect 8000],
       [ShowNotification ''Disconnected from server'' ''warning'', SetTimeout Reconnect 10000],
       [ShowNotification ''Disconnected from server'' ''warning'', SetTimeout Reconnect 10000],
       [ShowNotification ''Disconnected from server'' ''warning'',
        ShowNotification ''Unable to reconnect. Please refresh the page.'' ''error'']])"
    using run by (rule conjunct1)
  ultimately show ?thesis
    using zero by simp
qed

subsection \<open>The chunk cache\<close>

lemma set_needed:
  "set (neededChunks g) =
     {c. cheb c (cameraChunk g) \<le> 3 \<and> map_of (loadedChunks g) (getChunkKey (fst c) (snd c)) = None}"
  by (auto simp add: neededChunks_def cheb_def chunkLoadRadius_def case_prod_beta split: if_splits)

lemma distinct_concat_map_fst:
  assumes "distinct xs" and d: "\<And>x. distinct (f x)" and f: "\<And>x p. p \<in> set (f x) \<Longrightarrow> fst p = x"
  shows "distinct (concat (map f xs))"
  using assms(1)
proof (induction xs)
  case Nil
  then show ?case by simp
next
  case (Cons a xs)
  have "set (f a) \<inter> (\<Union>x\<in>set xs. set (f x)) = {}"
  proof (rule ccontr)
    assume "set (f a) \<inter> (\<Union>x\<in>set xs. set (f x)) \<noteq> {}"
    then obtain p x where p: "p \<in> set (f a)" "x \<in> set xs" "p \<in> set (f x)"
      by blast
    from f [OF p(1)] f [OF p(3)] have "a = x"
      by simp
    with p(2) Cons.prems show False
      by simp
  qed
  with Cons d show ?case
    by simp
qed

lemma distinct_concat_map_snd:
  "distinct ys \<Longrightarrow> distinct (concat (map (\<lambda>y. if P y then [(x, y)] else []) ys))"
  by (induction ys) (auto split: if_splits)

lemma distinct_needed: "distinct (neededChunks g)"
  unfolding neededChunks_def case_prod_beta Let_def
  by (rule distinct_concat_map_fst) (auto simp add: distinct_concat_map_snd split: if_splits)

lemma fold_unload_chunks:
  "map_of (loadedChunks (fold unload_chunk ks g)) k =
     (if k \<in> set ks then None else map_of (loadedChunks g) k)"
  by (induction ks arbitrary: g) (auto simp add: unload_chunk_def AList.delete_conv')

lemma fold_unload_fog:
  "map_of (fogOfWar (fold unload_chunk ks g)) k =
     (if k \<in> set ks then None else map_of (fogOfWar g) k)"
  by (induction ks arbitrary: g) (auto simp add: unload_chunk_def AList.delete_conv')

lemma in_chunksToUnload:
  "distinct (map fst (loadedChunks g)) \<Longrightarrow>
   k \<in> set (chunksToUnload g cx cy) \<longleftrightarrow>
     (\<exists>ch. map_of (loadedChunks g) k = Some ch \<and> cheb (chunk_x ch, chunk_y ch) (cx, cy) > 4)"
  by (force simp add: chunksToUnload_def cheb_def chunkLoadRadius_def)

text \<open>
  C1, as the code has it. One pass of \<^verbatim>\<open>loadNearbyChunks\<close> emits one \<^verbatim>\<open>request_chunks\<close> when
  the client is connected and some coordinate is needed, and nothing otherwise; the list of
  the request holds, each once, exactly the coordinates within Chebyshev distance 3 of the
  camera's chunk whose key is not in the cache. Connected or not, the pass removes exactly
  the cached chunks whose own coordinates are further than 4 from the camera's chunk,
  together with the masks stored under their keys, and keeps every other chunk and mask;
  so no chunk within distance 3 is removed.
\<close>

theorem recompute_pass:
  assumes "distinct (map fst (loadedChunks g))" and "cam_scale (camera g) \<noteq> 0"
  shows "snd (loadNearbyChunks g) =
           (if connected g \<and> neededChunks g \<noteq> [] then [Emit (RequestChunks (neededChunks g))]
            else [])
    \<and> distinct (neededChunks g)
    \<and> set (neededChunks g) =
        {c. cheb c (cameraChunk g) \<le> 3
            \<and> map_of (loadedChunks g) (getChunkKey (fst c) (snd c)) = None}
    \<and> (\<forall>k. map_of (loadedChunks (fst (loadNearbyChunks g))) k =
          (case map_of (loadedChunks g) k of
             None \<Rightarrow> None
           | Some ch \<Rightarrow>
               if cheb (chunk_x ch, chunk_y ch) (cameraChunk g) > 4 then None else Some ch))
    \<and> (\<forall>k. fog_mask (fst (loadNearbyChunks g)) k =
          (case map_of (loadedChunks g) k of
             None \<Rightarrow> fog_mask g k
           | Some ch \<Rightarrow>
               if cheb (chunk_x ch, chunk_y ch) (cameraChunk g) > 4 then None
               else fog_mask g k))"
proof -
  obtain ccx ccy where cc: "cameraChunk g = (ccx, ccy)"
    by (cases "cameraChunk g")
  have fst_load: "fst (loadNearbyChunks g) = fold unload_chunk (chunksToUnload g ccx ccy) g"
    by (simp add: loadNearbyChunks_def cc unloadDistantChunks_def Let_def)
  have request: "snd (loadNearbyChunks g) =
           (if connected g \<and> neededChunks g \<noteq> [] then [Emit (RequestChunks (neededChunks g))]
            else [])"
    by (auto simp add: loadNearbyChunks_def cc Let_def)
  have chunks: "map_of (loadedChunks (fst (loadNearbyChunks g))) k =
          (case map_of (loadedChunks g) k of
             None \<Rightarrow> None
           | Some ch \<Rightarrow>
               if cheb (chunk_x ch, chunk_y ch) (cameraChunk g) > 4 then None else Some ch)" for k
    unfolding fst_load fold_unload_chunks in_chunksToUnload [OF assms(1)] cc
    by (simp split: option.splits)
  have fog: "fog_mask (fst (loadNearbyChunks g)) k =
          (case map_of (loadedChunks g) k of
             None \<Rightarrow> fog_mask g k
           | Some ch \<Rightarrow>
               if cheb (chunk_x ch, chunk_y ch) (cameraChunk g) > 4 then None
               else fog_mask g k)" for k
    unfolding fog_mask_def fst_load fold_unload_fog in_chunksToUnload [OF assms(1)] cc
    by (simp split: option.splits)
  from request distinct_needed set_needed chunks fog show ?thesis
    by blast
qed

lemma cameraChunk_example_game: "cameraChunk example_game = (0, 0)"
  by (simp add: example_game_def cameraChunk_def getChunkCoords_def initial_game_def chunkSize_def)

lemma cameraChunk_offline_game: "cameraChunk offline_game = (0, 0)"
  by (simp add: offline_game_def example_game_def cameraChunk_def getChunkCoords_def
      initial_game_def chunkSize_def)

theorem recompute_pass_witness:
  "distinct (map fst (loadedChunks example_game)) \<and> cam_scale (camera example_game) \<noteq> 0
   \<and> connected example_game
   \<and> (0, 0) \<notin> set (neededChunks example_game) \<and> (3, -3) \<in> set (neededChunks example_game)
   \<and> snd (loadNearbyChunks example_game) = [Emit (RequestChunks (neededChunks example_game))]
   \<and> map_of (loadedChunks (fst (loadNearbyChunks example_game))) ''10,10'' = None
   \<and> fog_mask (fst (loadNearbyChunks example_game)) ''10,10'' = None
   \<and> map_of (loadedChunks (fst (loadNearbyChunks example_game))) ''0,0'' =
       Some (cached \<lparr>chunk_x = 0, chunk_y = 0, worldX = 0, worldY = 0\<rparr>)
   \<and> fog_mask (fst (loadNearbyChunks example_game)) ''0,0'' = Some (fill_fog new_canvas)
   \<and> distinct (map fst (loadedChunks offline_game)) \<and> cam_scale (camera offline_game) \<noteq> 0
   \<and> \<not> connected offline_game
   \<and> (3, -3) \<in> set (neededChunks offline_game)
   \<and> snd (loadNearbyChunks offline_game) = []
   \<and> map_of (loadedChunks (fst (loadNearbyChunks offline_game))) ''10,10'' = None
   \<and> fog_mask (fst (loadNearbyChunks offline_game)) ''10,10'' = None
   \<and> map_of (loadedChunks (fst (loadNearbyChunks offline_game))) ''0,0'' =
       Some (cached \<lparr>chunk_x = 0, chunk_y = 0, worldX = 0, worldY = 0\<rparr>)
   \<and> fog_mask (fst (loadNearbyChunks offline_game)) ''0,0'' = Some (fill_fog new_canvas)"
proof -
  have k1: "getChunkKey 0 0 = ''0,0''" and k2: "getChunkKey 3 (-3) = ''3,-3''"
    by (simp_all add: getChunkKey_def num_str_def)
  have on: "connected example_game" and off: "\<not> connected offline_game"
    by (simp_all add: offline_game_def example_game_def connected_def initial_game_def)
  have h1: "distinct (map fst (loadedChunks example_game))"
    and h2: "cam_scale (camera example_game) \<noteq> 0"
    by (simp_all add: example_game_def initial_game_def)
  have o1: "distinct (map fst (loadedChunks offline_game))"
    and o2: "cam_scale (camera offline_game) \<noteq> 0"
    by (simp_all add: offline_game_def example_game_def initial_game_def)
  have chunks: "loadedChunks example_game =
      [(''0,0'', cached \<lparr>chunk_x = 0, chunk_y = 0, worldX = 0, worldY = 0\<rparr>),
       (''10,10'', cached \<lparr>chunk_x = 10, chunk_y = 10, worldX = 5120, worldY = 5120\<rparr>)]"
    and fog: "fogOfWar example_game =
      [(''0,0'', fill_fog new_canvas), (''10,10'', fill_fog new_canvas)]"
    by (simp_all add: example_game_def initial_game_def)
  have ochunks: "loadedChunks offline_game = loadedChunks example_game"
    and ofog: "fogOfWar offline_game = fogOfWar example_game"
    by (simp_all add: offline_game_def)
  note pass = recompute_pass [OF h1 h2]
  note opass = recompute_pass [OF o1 o2]
  from pass have s: "set (neededChunks example_game) =
        {c. cheb c (cameraChunk example_game) \<le> 3
            \<and> map_of (loadedChunks example_game) (getChunkKey (fst c) (snd c)) = None}"
    by blast
  from opass have os: "set (neededChunks offline_game) =
        {c. cheb c (cameraChunk offline_game) \<le> 3
            \<and> map_of (loadedChunks offline_game) (getChunkKey (fst c) (snd c)) = None}"
    by blast
  have n1: "(0, 0) \<notin> set (neededChunks example_game)"
    unfolding s by (simp add: k1 chunks)
  have n2: "(3, -3) \<in> set (neededChunks example_game)"
    unfolding s by (simp add: k2 chunks cameraChunk_example_game cheb_def)
  then have ne: "neededChunks example_game \<noteq> []"
    by auto
  have on2: "(3, -3) \<in> set (neededChunks offline_game)"
    unfolding os by (simp add: k2 ochunks chunks cameraChunk_offline_game cheb_def)
  from pass ne on
  have r: "snd (loadNearbyChunks example_game) = [Emit (RequestChunks (neededChunks example_game))]"
    by simp
  from opass off have or: "snd (loadNearbyChunks offline_game) = []"
    by simp
  from pass have c: "map_of (loadedChunks (fst (loadNearbyChunks example_game))) k =
          (case map_of (loadedChunks example_game) k of
             None \<Rightarrow> None
           | Some ch \<Rightarrow>
               if cheb (chunk_x ch, chunk_y ch) (cameraChunk example_game) > 4 then None
               else Some ch)" for k
    by blast
  from pass have f: "fog_mask (fst (loadNearbyChunks example_game)) k =
          (case map_of (loadedChunks example_game) k of
             None \<Rightarrow> fog_mask example_game k
           | Some ch \<Rightarrow>
               if cheb (chunk_x ch, chunk_y ch) (cameraChunk example_game) > 4 then None
               else fog_mask example_game k)" for k
    by blast
  from opass have oc: "map_of (loadedChunks (fst (loadNearbyChunks offline_game))) k =
          (case map_of (loadedChunks offline_game) k of
             None \<Rightarrow> None
           | Some ch \<Rightarrow>
               if cheb (chunk_x ch, chunk_y ch) (cameraChunk offline_game) > 4 then None
               else Some ch)" for k
    by blast
  from opass have "of": "fog_mask (fst (loadNearbyChunks offline_game)) k =
          (case map_of (loadedChunks offline_game) k of
             None \<Rightarrow> fog_mask offline_game k
           | Some ch \<Rightarrow>
               if cheb (chunk_x ch, chunk_y ch) (cameraChunk offline_game) > 4 then None
               else fog_mask offline_game k)" for k
    by blast
  have c1: "map_of (loadedChunks (fst (loadNearbyChunks example_game))) ''10,10'' = None"
    and c2: "map_of (loadedChunks (fst (loadNearbyChunks example_game))) ''0,0'' =
       Some (cached \<lparr>chunk_x = 0, chunk_y = 0, worldX = 0, worldY = 0\<rparr>)"
    unfolding c by (simp_all add: chunks cameraChunk_example_game cheb_def)
  have f1: "fog_mask (fst (loadNearbyChunks example_game)) ''10,10'' = None"
    and f2: "fog_mask (fst (loadNearbyChunks example_game)) ''0,0'' = Some (fill_fog new_canvas)"
    unfolding f by (simp_all add: chunks fog fog_mask_def cameraChunk_example_game cheb_def)
  have oc1: "map_of (loadedChunks (fst (loadNearbyChunks offline_game))) ''10,10'' = None"
    and oc2: "map_of (loadedChunks (fst (loadNearbyChunks offline_game))) ''0,0'' =
       Some (cached \<lparr>chunk_x = 0, chunk_y = 0, worldX = 0, worldY = 0\<rparr>)"
    unfolding oc by (simp_all add: ochunks chunks cameraChunk_offline_game cheb_def)
  have of1: "fog_mask (fst (loadNearbyChunks offline_game)) ''10,10'' = None"
    and of2: "fog_mask (fst (loadNearbyChunks offline_game)) ''0,0'' = Some (fill_fog new_canvas)"
    unfolding "of"
    by (simp_all add: ochunks ofog chunks fog fog_mask_def cameraChunk_offline_game cheb_def)
  show ?thesis
    using h1 h2 on n1 n2 r c1 c2 f1 f2 o1 o2 off on2 or oc1 oc2 of1 of2 by simp
qed

text \<open>
  The claim as stated fails when the client is not connected: with an empty cache the
  coordinate \<open>(0, 0)\<close> is needed and the pass emits no request.
\<close>

theorem disconnected_pass_counterexample:
  "loadedChunks ((initial_game 1024 768)\<lparr>socket := Some ''s1''\<rparr>) = []
   \<and> (0, 0) \<in> set (neededChunks ((initial_game 1024 768)\<lparr>socket := Some ''s1''\<rparr>))
   \<and> snd (loadNearbyChunks ((initial_game 1024 768)\<lparr>socket := Some ''s1''\<rparr>)) = []"
  by (simp add: set_needed loadNearbyChunks_def connected_def cameraChunk_def getChunkCoords_def
      initial_game_def chunkSize_def cheb_def case_prod_beta)

subsection \<open>Outbound requests\<close>

text \<open>
  C4, as the code has it. Placing a building and sending a scout are emitted exactly when
  the client is connected and otherwise answered with the notice
  \<open>Not connected to server!\<close>, the state unchanged in both cases. A camera update is emitted
  exactly when the client is connected and the throttle window is open, a chunk request
  exactly when the client is connected and some chunk is needed; neither ever shows a
  notice.
\<close>

theorem outbound_requests_gated:
  "tryPlaceBuilding g sx sy =
     (g, if connected g
         then [Emit (PlaceBuilding (selectedBuilding g) (fst (screenToWorld g sx sy))
                       (snd (screenToWorld g sx sy)))]
         else [ShowNotification ''Not connected to server!'' ''error''])
   \<and> sendScoutToExplore g tx ty =
     (g, if connected g then [Emit (SendScout tx ty)]
         else [ShowNotification ''Not connected to server!'' ''error''])
   \<and> throttledCameraUpdate g =
     (if inThrottle g then (g, [])
      else (g\<lparr>inThrottle := True\<rparr>,
            (if connected g then [Emit (UpdateCamera (camera g))] else [])
            @ [SetTimeout ThrottleReset 100]))
   \<and> snd (loadNearbyChunks g) =
     (if connected g \<and> neededChunks g \<noteq> [] then [Emit (RequestChunks (neededChunks g))]
      else [])"
  by (auto simp add: tryPlaceBuilding_def sendScoutToExplore_def throttledCameraUpdate_def
      cameraUpdate_def loadNearbyChunks_def split: prod.splits)

theorem outbound_requests_gated_witness:
  "tryPlaceBuilding example_game 10 20 = (example_game, [Emit (PlaceBuilding None 10 20)])
   \<and> sendScoutToExplore (initial_game 800 600) 1 2 =
       (initial_game 800 600, [ShowNotification ''Not connected to server!'' ''error''])
   \<and> snd (throttledCameraUpdate (initial_game 800 600)) = [SetTimeout ThrottleReset 100]"
  using outbound_requests_gated [of example_game 10 20 1 2]
    outbound_requests_gated [of "initial_game 800 600" 10 20 1 2]
  by (simp add: example_game_def initial_game_def connected_def screenToWorld_def)

text \<open>
  The claim as stated fails for the camera update and the chunk request: in a state that
  is not connected neither shows a notice, the first produces only the throttle timer and
  the second nothing, although chunks are needed.
\<close>

lemma needed0: "neededChunks (initial_game 800 600) \<noteq> []"
  by (simp add: neededChunks_def cameraChunk_def getChunkCoords_def initial_game_def chunkSize_def chunkLoadRadius_def upto.simps)

theorem silent_drop_counterexample:
  "\<not> connected (initial_game 800 600)
   \<and> snd (throttledCameraUpdate (initial_game 800 600)) = [SetTimeout ThrottleReset 100]
   \<and> neededChunks (initial_game 800 600) \<noteq> []
   \<and> snd (loadNearbyChunks (initial_game 800 600)) = []"
  using needed0
  by (simp add: connected_def throttledCameraUpdate_def cameraUpdate_def loadNearbyChunks_def
      initial_game_def split: prod.splits)

subsection \<open>Inbound events\<close>

lemma handlePlayerUpdated_other:
  "socket g = Some sid \<Longrightarrow> pu_playerId d \<noteq> sid \<Longrightarrow> handlePlayerUpdated g d = Inr g"
  by (simp add: handlePlayerUpdated_def)

lemma handlePlayerUpdated_local:
  "socket g = Some sid \<Longrightarrow> pu_playerId d = sid \<Longrightarrow> pu_resources d = Some r \<Longrightarrow>
   pu_population d = Some n \<Longrightarrow> n \<noteq> 0 \<Longrightarrow> pu_scouts d = Some s \<Longrightarrow>
   handlePlayerUpdated g d = Inr (g\<lparr>resources := r, population := n, scouts := s\<rparr>)"
  by (simp add: handlePlayerUpdated_def)

text \<open>
  C5, at the input where the code departs from it: a \<^verbatim>\<open>player_updated\<close> event for the local
  player that carries the population 0 replaces the resources and the scouts and leaves the
  population at its old value 5.
\<close>

theorem player_updated_zero_population:
  "handlePlayerUpdated ((initial_game 800 600)\<lparr>socket := Some ''me'', isConnected := True\<rparr>)
     \<lparr>pu_playerId = ''me'', pu_resources = Some \<lparr>food = 1, wood = 2, iron = 3, gold = 4\<rparr>,
      pu_population = Some 0, pu_scouts = Some []\<rparr>
   = Inr ((initial_game 800 600)\<lparr>socket := Some ''me'', isConnected := True,
        resources := \<lparr>food = 1, wood = 2, iron = 3, gold = 4\<rparr>, population := 5\<rparr>)"
  by (simp add: handlePlayerUpdated_def initial_game_def)

subsection \<open>Reveals\<close>

text \<open>
  C9. When no mask is stored under the key of the chunk that contains the point,
  \<^verbatim>\<open>revealArea\<close> returns the state as it was: no animation is registered, no mask is created
  and no mask changes.
\<close>

theorem reveal_without_mask_is_noop:
  assumes "fog_mask g (getChunkKey (fst (getChunkCoords x y)) (snd (getChunkCoords x y))) = None"
  shows "revealArea g now x y r = g"
  using assms by (simp add: revealArea_def fog_mask_def case_prod_beta)

theorem reveal_without_mask_is_noop_witness:
  "fog_mask (initial_game 800 600)
     (getChunkKey (fst (getChunkCoords 10 10)) (snd (getChunkCoords 10 10))) = None
   \<and> revealArea (initial_game 800 600) 0 10 10 100 = initial_game 800 600"
proof -
  have none: "fog_mask (initial_game 800 600)
     (getChunkKey (fst (getChunkCoords 10 10)) (snd (getChunkCoords 10 10))) = None"
    by (simp add: fog_mask_def initial_game_def)
  from none reveal_without_mask_is_noop [OF none] show ?thesis
    by simp
qed

subsection \<open>Coordinates\<close>

lemma floor_div_512:
  "\<lfloor>x / real_of_int chunkSize\<rfloor> = c \<longleftrightarrow> real_of_int c * 512 \<le> x \<and> x < (real_of_int c + 1) * 512"
  by (simp add: chunkSize_def floor_eq_iff pos_le_divide_eq pos_divide_less_eq)

lemma needed_origin_block:
  assumes "loadedChunks g = []" and "cameraChunk g = (0, 0)"
  shows "neededChunks g =
     [(-3,-3), (-3,-2), (-3,-1), (-3,0), (-3,1), (-3,2), (-3,3),
      (-2,-3), (-2,-2), (-2,-1), (-2,0), (-2,1), (-2,2), (-2,3),
      (-1,-3), (-1,-2), (-1,-1), (-1,0), (-1,1), (-1,2), (-1,3),
      (0,-3), (0,-2), (0,-1), (0,0), (0,1), (0,2), (0,3),
      (1,-3), (1,-2), (1,-1), (1,0), (1,1), (1,2), (1,3),
      (2,-3), (2,-2), (2,-1), (2,0), (2,1), (2,2), (2,3),
      (3,-3), (3,-2), (3,-1), (3,0), (3,1), (3,2), (3,3)]"
  using assms by (simp add: neededChunks_def chunkLoadRadius_def upto.simps)

text \<open>
  C7, as the code has it. \<^verbatim>\<open>getChunkCoords\<close> is the floor of the division by 512 on each
  axis: the result is the one chunk whose half-open square holds the point, for negative
  coordinates too, and the origin is in chunk \<open>(0, 0)\<close>. A pass of a connected client with
  an empty cache whose view is centred in chunk \<open>(0, 0)\<close> requests the 49 coordinates of
  \<open>{-3..3} \<times> {-3..3}\<close>.
\<close>

theorem worldToChunk_floor_origin_block:
  "(getChunkCoords x y = (cx, cy) \<longleftrightarrow>
      real_of_int cx * 512 \<le> x \<and> x < (real_of_int cx + 1) * 512
      \<and> real_of_int cy * 512 \<le> y \<and> y < (real_of_int cy + 1) * 512)
   \<and> getChunkCoords 0 0 = (0, 0)
   \<and> (connected g \<and> loadedChunks g = [] \<and> cam_scale (camera g) \<noteq> 0
        \<and> cameraChunk g = (0, 0) \<longrightarrow>
        snd (loadNearbyChunks g) = [Emit (RequestChunks (neededChunks g))]
        \<and> length (neededChunks g) = 49
        \<and> set (neededChunks g) = {-3..3} \<times> {-3..3})"
proof -
  have a: "getChunkCoords x y = (cx, cy) \<longleftrightarrow>
      real_of_int cx * 512 \<le> x \<and> x < (real_of_int cx + 1) * 512
      \<and> real_of_int cy * 512 \<le> y \<and> y < (real_of_int cy + 1) * 512"
    by (simp add: getChunkCoords_def floor_div_512)
  have b: "getChunkCoords 0 0 = (0, 0)"
    by (simp add: getChunkCoords_def)
  have c: "snd (loadNearbyChunks g) = [Emit (RequestChunks (neededChunks g))]
        \<and> length (neededChunks g) = 49
        \<and> set (neededChunks g) = {-3..3} \<times> {-3..3}"
    if h: "connected g" "loadedChunks g = []" "cameraChunk g = (0, 0)"
  proof -
    note n = needed_origin_block [OF h(2) h(3)]
    have len: "length (neededChunks g) = 49"
      unfolding n by simp
    then have ne: "neededChunks g \<noteq> []"
      by auto
    have req: "snd (loadNearbyChunks g) = [Emit (RequestChunks (neededChunks g))]"
      using h(1) ne by (simp add: loadNearbyChunks_def h(3))
    have "set (neededChunks g) = {c. cheb c (0, 0) \<le> 3}"
      by (simp add: set_needed h)
    also have "\<dots> = {-3..3} \<times> {-3..3}"
      by (auto simp add: cheb_def)
    finally show ?thesis
      using len req by simp
  qed
  from a b c show ?thesis
    by blast
qed

theorem worldToChunk_floor_origin_block_witness:
  "getChunkCoords (-1) 600 = (-1, 1)
   \<and> connected ((initial_game 800 600)\<lparr>socket := Some ''me'', isConnected := True\<rparr>)
   \<and> loadedChunks ((initial_game 800 600)\<lparr>socket := Some ''me'', isConnected := True\<rparr>) = []
   \<and> cameraChunk ((initial_game 800 600)\<lparr>socket := Some ''me'', isConnected := True\<rparr>) = (0, 0)
   \<and> length (neededChunks ((initial_game 800 600)\<lparr>socket := Some ''me'', isConnected := True\<rparr>)) = 49
   \<and> set (neededChunks ((initial_game 800 600)\<lparr>socket := Some ''me'', isConnected := True\<rparr>))
       = {-3..3} \<times> {-3..3}"
proof -
  let ?g = "(initial_game 800 600)\<lparr>socket := Some ''me'', isConnected := True\<rparr>"
  have h: "connected ?g" "loadedChunks ?g = []" "cam_scale (camera ?g) \<noteq> 0"
    "cameraChunk ?g = (0, 0)"
    by (simp_all add: connected_def initial_game_def cameraChunk_def getChunkCoords_def
        chunkSize_def)
  have p: "real_of_int (-1) * 512 \<le> -1 \<and> (-1::real) < (real_of_int (-1) + 1) * 512
      \<and> real_of_int 1 * 512 \<le> 600 \<and> (600::real) < (real_of_int 1 + 1) * 512"
    by simp
  from worldToChunk_floor_origin_block [of "-1" 600 "-1" 1 ?g] h p show ?thesis
    by simp
qed

text \<open>
  The chunk the pass is centred on is the one under the centre of the view, not the one
  under the camera position: with the camera at the origin and a 1920 by 1080 canvas the
  centre is in chunk \<open>(1, 1)\<close>, and the request holds \<open>(4, 1)\<close> and not \<open>(-3, 0)\<close>.
\<close>

theorem camera_at_origin_counterexample:
  "cam_x (camera wide_game) = 0 \<and> cam_y (camera wide_game) = 0
   \<and> connected wide_game \<and> loadedChunks wide_game = []
   \<and> snd (loadNearbyChunks wide_game) = [Emit (RequestChunks (neededChunks wide_game))]
   \<and> (4, 1) \<in> set (neededChunks wide_game) \<and> (-3, 0) \<notin> set (neededChunks wide_game)"
proof -
  have m: "(4, 1) \<in> set (neededChunks wide_game) \<and> (-3, 0) \<notin> set (neededChunks wide_game)"
    by (simp add: set_needed wide_game_def cameraChunk_def getChunkCoords_def
        initial_game_def chunkSize_def cheb_def)
  then have "neededChunks wide_game \<noteq> []"
    by auto
  moreover have "connected wide_game"
    by (simp add: wide_game_def connected_def)
  ultimately have "snd (loadNearbyChunks wide_game) =
      [Emit (RequestChunks (neededChunks wide_game))]"
    by (simp add: loadNearbyChunks_def case_prod_beta)
  with m show ?thesis
    by (simp add: wide_game_def connected_def initial_game_def)
qed

subsection \<open>Fog masks\<close>

lemma scale_canvas_one [simp]: "scale_canvas (\<lambda>p. 1) c = c"
  by (simp add: scale_canvas_def)

lemma scale_canvas_twice:
  "scale_canvas f (scale_canvas h c) = scale_canvas (\<lambda>p. h p * f p) c"
  by (simp add: scale_canvas_def fun_eq_iff)

lemma erase_disc_scale:
  "0 < r \<Longrightarrow> erase_disc c lx ly r =
     scale_canvas (\<lambda>p. if in_canvas p \<and> pixel_dist p lx ly \<le> r
                        then 1 - gradient_alpha (pixel_dist p lx ly / r) else 1) c"
  by (simp add: erase_disc_def scale_canvas_def fun_eq_iff)

lemma anim_factor_other:
  "k \<noteq> getChunkKey (chunkX a) (chunkY a) \<Longrightarrow> anim_factor now chunks a k = (\<lambda>p. 1)"
  by (simp add: anim_factor_def fun_eq_iff)

lemma tick_factor_Nil: "tick_factor now chunks [] k = (\<lambda>p. 1)"
  by (simp add: tick_factor_def fun_eq_iff)

lemma tick_factor_Cons:
  "tick_factor now chunks (a # as) k =
     (\<lambda>p. anim_factor now chunks a k p * tick_factor now chunks as k p)"
  by (simp add: tick_factor_def fun_eq_iff)

lemma tick_anim_alt:
  "tick_anim now chunks fog a =
     (let r = targetRadius a * easeOutQuad (anim_progress now a);
          key = getChunkKey (chunkX a) (chunkY a)
      in ((case map_of fog key of
             None \<Rightarrow> fog
           | Some fd \<Rightarrow>
               (case map_of chunks key of
                  None \<Rightarrow> fog
                | Some ch \<Rightarrow>
                    if r > 0
                    then AList.update key
                           (erase_disc fd (anim_x a - worldX ch) (anim_y a - worldY ch) r) fog
                    else fog)),
          a\<lparr>radius := r\<rparr>, anim_progress now a < 1))"
  by (simp add: tick_anim_def anim_progress_def Let_def split: option.splits)

lemma tick_anim_fog:
  "map_of (fst (tick_anim now chunks fog a)) k =
     map_option (scale_canvas (anim_factor now chunks a k)) (map_of fog k)"
proof (cases "k = getChunkKey (chunkX a) (chunkY a)")
  case False
  then show ?thesis
    by (cases "map_of fog k")
      (auto simp add: tick_anim_alt Let_def anim_factor_other AList.update_conv'
        split: option.splits)
next
  case True
  show ?thesis
  proof (cases "map_of fog k")
    case None
    then show ?thesis
      using True by (simp add: tick_anim_alt Let_def)
  next
    case (Some c)
    show ?thesis
    proof (cases "map_of chunks k")
      case None
      have "anim_factor now chunks a k = (\<lambda>p. 1)"
        using None True by (simp add: anim_factor_def fun_eq_iff)
      then show ?thesis
        using None Some True by (simp add: tick_anim_alt Let_def)
    next
      case (Some ch)
      show ?thesis
      proof (cases "targetRadius a * easeOutQuad (anim_progress now a) > 0")
        case False
        have "anim_factor now chunks a k = (\<lambda>p. 1)"
          using False Some True by (simp add: anim_factor_def fun_eq_iff Let_def)
        then show ?thesis
          using False Some \<open>map_of fog k = Some c\<close> True
          by (simp add: tick_anim_alt Let_def)
      next
        case pos: True
        have "anim_factor now chunks a k =
            (\<lambda>p. if in_canvas p \<and> pixel_dist p (anim_x a - worldX ch) (anim_y a - worldY ch)
                       \<le> targetRadius a * easeOutQuad (anim_progress now a)
                  then 1 - gradient_alpha
                         (pixel_dist p (anim_x a - worldX ch) (anim_y a - worldY ch)
                          / (targetRadius a * easeOutQuad (anim_progress now a)))
                  else 1)"
          using pos Some True by (simp add: anim_factor_def fun_eq_iff Let_def)
        then show ?thesis
          using pos Some \<open>map_of fog k = Some c\<close> True
          by (simp add: tick_anim_alt Let_def AList.update_conv' erase_disc_scale)
      qed
    qed
  qed
qed

lemma tick_anim_rest:
  "snd (tick_anim now chunks fog a) =
     (a\<lparr>radius := targetRadius a * easeOutQuad (anim_progress now a)\<rparr>, anim_progress now a < 1)"
  by (simp add: tick_anim_alt Let_def)

lemma tick_anims_fog:
  "map_of (fst (tick_anims now chunks fog as)) k =
     map_option (scale_canvas (tick_factor now chunks as k)) (map_of fog k)"
proof (induction as arbitrary: fog)
  case Nil
  show ?case
    by (simp add: tick_factor_Nil option.map_ident)
next
  case (Cons a as)
  obtain fog1 r where t: "tick_anim now chunks fog a = (fog1, r)"
    by (cases "tick_anim now chunks fog a")
  have f1: "map_of fog1 k = map_option (scale_canvas (anim_factor now chunks a k)) (map_of fog k)"
    using tick_anim_fog [of now chunks fog a k] t by simp
  have "map_of (fst (tick_anims now chunks fog (a # as))) k =
      map_of (fst (tick_anims now chunks fog1 as)) k"
    using t by (simp add: case_prod_beta)
  also have "\<dots> = map_option (scale_canvas (tick_factor now chunks as k)) (map_of fog1 k)"
    by (rule Cons.IH)
  also have "\<dots> = map_option (scale_canvas (tick_factor now chunks (a # as) k)) (map_of fog k)"
    unfolding f1
    by (cases "map_of fog k") (simp_all add: scale_canvas_twice tick_factor_Cons)
  finally show ?case .
qed

lemma tick_anims_rest: "snd (tick_anims now chunks fog as) = alive now as"
proof (induction as arbitrary: fog)
  case Nil
  show ?case by (simp add: alive_def)
next
  case (Cons a as)
  obtain fog1 r where t: "tick_anim now chunks fog a = (fog1, r)"
    by (cases "tick_anim now chunks fog a")
  from tick_anim_rest [of now chunks fog a] t
  have r: "r = (a\<lparr>radius := targetRadius a * easeOutQuad (anim_progress now a)\<rparr>,
      anim_progress now a < 1)"
    by simp
  have "snd (tick_anims now chunks fog1 as) = alive now as"
    by (rule Cons.IH)
  then show ?case
    using t r by (simp add: case_prod_beta alive_def)
qed

lemma update_fog:
  "fog_mask (updateRevealAnimations g now) k =
     map_option (scale_canvas (tick_factor now (loadedChunks g) (revealAnimations g) k))
       (fog_mask g k)"
  using tick_anims_fog [of now "loadedChunks g" "fogOfWar g" "revealAnimations g" k]
  by (simp add: updateRevealAnimations_def fog_mask_def case_prod_beta)

lemma update_anims:
  "revealAnimations (updateRevealAnimations g now) = alive now (revealAnimations g)"
  using tick_anims_rest [of now "loadedChunks g" "fogOfWar g" "revealAnimations g"]
  by (simp add: updateRevealAnimations_def case_prod_beta)

lemma update_chunks: "loadedChunks (updateRevealAnimations g now) = loadedChunks g"
  by (simp add: updateRevealAnimations_def case_prod_beta)


lemma run_ticks_fog:
  "fog_mask (run_ticks g ts) k =
     map_option (scale_canvas (run_factor (loadedChunks g) (revealAnimations g) ts k))
       (fog_mask g k)"
proof (induction ts arbitrary: g)
  case Nil
  have "run_factor (loadedChunks g) (revealAnimations g) [] k = (\<lambda>p. 1)"
    by (simp add: fun_eq_iff)
  then show ?case
    by (simp add: option.map_ident)
next
  case (Cons t ts)
  have "run_factor (loadedChunks g) (revealAnimations g) (t # ts) k =
      (\<lambda>p. tick_factor t (loadedChunks g) (revealAnimations g) k p
            * run_factor (loadedChunks g) (alive t (revealAnimations g)) ts k p)"
    by (simp add: fun_eq_iff)
  then show ?case
    using Cons.IH [of "updateRevealAnimations g t"]
    by (cases "fog_mask g k")
      (simp_all add: update_fog update_anims update_chunks scale_canvas_twice)
qed

lemma revealArea_alt:
  "revealArea g now x y r =
     (if fog_mask g (reveal_key x y) = None then g
      else g\<lparr>revealAnimations := revealAnimations g @ [reveal_anim_of now x y r]\<rparr>)"
  by (auto simp add: revealArea_def reveal_anim_of_def reveal_key_def fog_mask_def
      case_prod_beta split: option.splits)

lemma revealArea_fog: "fog_mask (revealArea g now x y r) k = fog_mask g k"
  by (simp add: revealArea_alt fog_mask_def)

lemma revealArea_chunks: "loadedChunks (revealArea g now x y r) = loadedChunks g"
  by (simp add: revealArea_alt)

lemma alive_append: "alive t (as @ bs) = alive t as @ alive t bs"
  by (simp add: alive_def)

lemma tick_factor_append:
  "tick_factor t chunks (as @ bs) k p = tick_factor t chunks as k p * tick_factor t chunks bs k p"
  by (simp add: tick_factor_def)

lemma run_factor_append:
  "run_factor chunks (as @ bs) ts k p = run_factor chunks as ts k p * run_factor chunks bs ts k p"
  by (induction ts arbitrary: as bs) (simp_all add: alive_append tick_factor_append)

lemma gradient_alpha_bounds: "0 \<le> gradient_alpha t \<and> gradient_alpha t \<le> 1"
  by (auto simp add: gradient_alpha_def field_simps)

lemma anim_factor_bounds: "0 \<le> anim_factor now chunks a k p \<and> anim_factor now chunks a k p \<le> 1"
  using gradient_alpha_bounds
  by (auto simp add: anim_factor_def Let_def split: option.splits)

lemma prod_list_unit_interval:
  "(\<And>x. x \<in> set xs \<Longrightarrow> 0 \<le> x \<and> x \<le> (1::real)) \<Longrightarrow> 0 \<le> prod_list xs \<and> prod_list xs \<le> 1"
proof (induction xs)
  case Nil
  show ?case by simp
next
  case (Cons x xs)
  then have "0 \<le> x" "x \<le> 1" "0 \<le> prod_list xs" "prod_list xs \<le> 1"
    by simp_all
  then show ?case
    by (simp add: mult_le_one)
qed

lemma tick_factor_bounds: "0 \<le> tick_factor t chunks as k p \<and> tick_factor t chunks as k p \<le> 1"
  unfolding tick_factor_def
  by (rule prod_list_unit_interval) (auto simp add: anim_factor_bounds)

lemma run_factor_bounds: "0 \<le> run_factor chunks as ts k p \<and> run_factor chunks as ts k p \<le> 1"
proof (induction ts arbitrary: as)
  case Nil
  show ?case by simp
next
  case (Cons t ts)
  from tick_factor_bounds [of t chunks as k p] Cons.IH [of "alive t as"] show ?case
    by (simp add: mult_le_one)
qed

lemma alive_keys:
  "a \<in> set (alive t as) \<Longrightarrow>
   \<exists>b \<in> set as. chunkX a = chunkX b \<and> chunkY a = chunkY b"
  by (auto simp add: alive_def)

lemma tick_factor_other:
  "(\<And>a. a \<in> set as \<Longrightarrow> k \<noteq> getChunkKey (chunkX a) (chunkY a)) \<Longrightarrow>
   tick_factor t chunks as k p = 1"
  by (induction as) (simp_all add: tick_factor_def anim_factor_def)

lemma run_factor_other:
  "(\<And>a. a \<in> set as \<Longrightarrow> k \<noteq> getChunkKey (chunkX a) (chunkY a)) \<Longrightarrow>
   run_factor chunks as ts k p = 1"
proof (induction ts arbitrary: as)
  case Nil
  show ?case by simp
next
  case (Cons t ts)
  have "k \<noteq> getChunkKey (chunkX a) (chunkY a)" if "a \<in> set (alive t as)" for a
  proof -
    from alive_keys [OF that] obtain b
      where b: "b \<in> set as" "chunkX a = chunkX b" "chunkY a = chunkY b"
      by blast
    from Cons.prems [OF b(1)] show ?thesis
      by (simp add: b)
  qed
  then have "run_factor chunks (alive t as) ts k p = 1"
    by (rule Cons.IH)
  then show ?case
    using Cons.prems by (simp add: tick_factor_other)
qed

lemma scale_canvas_one_fun: "scale_canvas (\<lambda>p. 1) = (\<lambda>c. c)"
  by (simp add: fun_eq_iff)

lemma tick_anim_other_key:
  "k \<noteq> getChunkKey (chunkX a) (chunkY a) \<Longrightarrow> map_of (fst (tick_anim now chunks fog a)) k = map_of fog k"
  by (simp add: tick_anim_fog anim_factor_other scale_canvas_one_fun option.map_ident)

text \<open>
  C10. For every key other than that of the chunk containing the point of a reveal, the mask
  stored under the key is the same after \<^verbatim>\<open>revealArea\<close> as before, after any sequence of
  ticks it is what it would be without the reveal, and no tick of an animation anchored in
  that chunk changes it, whatever the radius.
\<close>

theorem reveal_touches_only_its_chunk:
  assumes "k \<noteq> getChunkKey (fst (getChunkCoords x y)) (snd (getChunkCoords x y))"
  shows "fog_mask (revealArea g t0 x y r) k = fog_mask g k
    \<and> fog_mask (run_ticks (revealArea g t0 x y r) ts) k = fog_mask (run_ticks g ts) k
    \<and> (\<forall>now chunks fog a.
          chunkX a = fst (getChunkCoords x y) \<and> chunkY a = snd (getChunkCoords x y) \<longrightarrow>
          map_of (fst (tick_anim now chunks fog a)) k = map_of fog k)"
proof -
  let ?a = "reveal_anim_of t0 x y r"
  have key: "k \<noteq> getChunkKey (chunkX ?a) (chunkY ?a)"
    using assms by (simp add: reveal_anim_of_def)
  have one: "run_factor chunks [?a] ts k p = 1" for chunks p
    by (rule run_factor_other) (use key in simp)
  have "run_factor chunks (as @ [?a]) ts k = run_factor chunks as ts k" for chunks as
    by (simp add: fun_eq_iff run_factor_append one)
  then have run: "fog_mask (run_ticks (revealArea g t0 x y r) ts) k = fog_mask (run_ticks g ts) k"
    by (simp add: run_ticks_fog revealArea_fog revealArea_chunks) (simp add: revealArea_alt)
  have tick: "map_of (fst (tick_anim now chunks fog a)) k = map_of fog k"
    if "chunkX a = fst (getChunkCoords x y) \<and> chunkY a = snd (getChunkCoords x y)"
    for now chunks fog a
    by (rule tick_anim_other_key) (use that assms in simp)
  from run tick show ?thesis
    by (simp add: revealArea_fog)
qed

lemma run_factor_no_anims: "run_factor chunks [] ts k = (\<lambda>p. 1)"
  by (rule ext, rule run_factor_other) simp

lemma run_ticks_no_anims: "revealAnimations g = [] \<Longrightarrow> fog_mask (run_ticks g ts) k = fog_mask g k"
  by (simp add: run_ticks_fog run_factor_no_anims scale_canvas_one_fun option.map_ident)

theorem reveal_touches_only_its_chunk_witness:
  "''10,10'' \<noteq> getChunkKey (fst (getChunkCoords 10 10)) (snd (getChunkCoords 10 10))
   \<and> fog_mask (run_ticks (revealArea example_game 0 10 10 100) [400, 800]) ''10,10''
       = Some (fill_fog new_canvas)"
proof -
  have h: "''10,10'' \<noteq> getChunkKey (fst (getChunkCoords 10 10)) (snd (getChunkCoords 10 10))"
    by (simp add: getChunkCoords_def chunkSize_def getChunkKey_def num_str_def)
  have "fog_mask (run_ticks example_game [400, 800]) ''10,10'' = fog_mask example_game ''10,10''"
    by (rule run_ticks_no_anims) (simp add: example_game_def initial_game_def)
  also have "\<dots> = Some (fill_fog new_canvas)"
    by (simp add: fog_mask_def example_game_def initial_game_def)
  finally show ?thesis
    using h reveal_touches_only_its_chunk [OF h, of example_game 0 100 "[400, 800]"]
    by simp
qed

lemma deliver_chunk_keeps:
  assumes "fst e = getChunkKey (chunk_x (snd e)) (chunk_y (snd e))"
    and "fog_mask g k = Some c"
  shows "fog_mask (deliver_chunk e g) k = Some c"
proof (cases "fog_mask g (fst e) = None")
  case True
  with assms(2) have "fst e \<noteq> k"
    by auto
  with True assms show ?thesis
    by (simp add: deliver_chunk_def Let_def initializeChunkFogOfWar_def fog_mask_def
        AList.update_conv')
next
  case False
  then show ?thesis
    using assms(2) by (auto simp add: deliver_chunk_def Let_def fog_mask_def)
qed

lemma handleChunksData_keeps:
  assumes "\<forall>e \<in> set chunks. fst e = getChunkKey (chunk_x (snd e)) (chunk_y (snd e))"
    and "fog_mask g k = Some c"
  shows "fog_mask (handleChunksData g chunks) k = Some c"
  using assms unfolding handleChunksData_def
  by (induction chunks arbitrary: g) (simp_all add: deliver_chunk_keeps)

lemma restore_entry_existing:
  assumes "fog_mask g (getChunkKey cx cy) = Some c"
  shows "fog_mask (restore_entry ((cx, cy), img) g) (getChunkKey cx cy) =
     Some (draw_image img (clear_canvas c))"
  using assms by (simp add: restore_entry_def Let_def fog_mask_def AList.update_conv')

lemma draw_image_clear: "in_canvas p \<Longrightarrow> draw_image img (clear_canvas c) p = img p"
  by (simp add: draw_image_def clear_canvas_def)

text \<open>
  C6, as the code has it. Under a tick of the reveal animations every opacity of a mask stays
  non-negative and does not increase; \<^verbatim>\<open>revealArea\<close> leaves the mask as it is, and so does a
  delivery of chunks whose keys are the keys of their coordinates. A restore of saved fog
  for the key replaces the contents of the mask by the saved image. A mask is created with
  opacity 0.9 at every pixel of its canvas.
\<close>

theorem fog_never_thickens_by_ticks_or_delivery:
  assumes "fog_mask g k = Some c" and "\<forall>p. 0 \<le> c p"
    and "\<forall>a \<in> set (revealAnimations g). duration a = 800"
  shows "(\<exists>c'. fog_mask (updateRevealAnimations g now) k = Some c'
            \<and> (\<forall>p. 0 \<le> c' p \<and> c' p \<le> c p))
    \<and> fog_mask (revealArea g t0 x y r) k = Some c
    \<and> ((\<forall>e \<in> set chunks. fst e = getChunkKey (chunk_x (snd e)) (chunk_y (snd e))) \<longrightarrow>
          fog_mask (handleChunksData g chunks) k = Some c)
    \<and> (k = getChunkKey cx cy \<longrightarrow>
          (\<exists>c'. fog_mask (restore_entry ((cx, cy), img) g) k = Some c'
             \<and> (\<forall>p. in_canvas p \<longrightarrow> c' p = img p)))
    \<and> fog_mask (initializeChunkFogOfWar g nx ny) (getChunkKey nx ny) = Some (fill_fog new_canvas)
    \<and> (\<forall>p. in_canvas p \<longrightarrow> fill_fog new_canvas p = 9 / 10)"
proof -
  let ?f = "tick_factor now (loadedChunks g) (revealAnimations g) k"
  have tick: "fog_mask (updateRevealAnimations g now) k = Some (scale_canvas ?f c)"
    by (simp add: update_fog assms(1))
  have "0 \<le> scale_canvas ?f c p \<and> scale_canvas ?f c p \<le> c p" for p
  proof -
    from assms(2) have c: "0 \<le> c p"
      by (rule spec)
    from tick_factor_bounds [of now "loadedChunks g" "revealAnimations g" k p]
    have f: "0 \<le> ?f p" "?f p \<le> 1"
      by simp_all
    from c f have "c p * ?f p \<le> c p * 1"
      by (intro mult_left_mono) simp_all
    with c f show ?thesis
      by (simp add: scale_canvas_def)
  qed
  with tick have a: "\<exists>c'. fog_mask (updateRevealAnimations g now) k = Some c'
            \<and> (\<forall>p. 0 \<le> c' p \<and> c' p \<le> c p)"
    by blast
  have b: "fog_mask (revealArea g t0 x y r) k = Some c"
    by (simp add: revealArea_fog assms(1))
  have d: "fog_mask (handleChunksData g chunks) k = Some c"
    if "\<forall>e \<in> set chunks. fst e = getChunkKey (chunk_x (snd e)) (chunk_y (snd e))"
    by (rule handleChunksData_keeps [OF that assms(1)])
  have e: "\<exists>c'. fog_mask (restore_entry ((cx, cy), img) g) k = Some c'
             \<and> (\<forall>p. in_canvas p \<longrightarrow> c' p = img p)" if "k = getChunkKey cx cy"
    using restore_entry_existing [of g cx cy c img] assms(1) that
    by (simp add: draw_image_clear)
  have f: "fog_mask (initializeChunkFogOfWar g nx ny) (getChunkKey nx ny)
      = Some (fill_fog new_canvas)"
    by (simp add: initializeChunkFogOfWar_def fog_mask_def AList.update_conv')
  have h: "\<forall>p. in_canvas p \<longrightarrow> fill_fog new_canvas p = 9 / 10"
    by (simp add: fill_fog_def new_canvas_def)
  from a b d e f h show ?thesis
    by blast
qed

lemma key_half: "reveal_key (1 / 2) (1 / 2) = ''0,0''"
  by (simp add: reveal_key_def getChunkCoords_def chunkSize_def getChunkKey_def num_str_def)

lemma anim_half_key:
  "getChunkKey (chunkX (reveal_anim_of t0 (1 / 2) (1 / 2) r))
     (chunkY (reveal_anim_of t0 (1 / 2) (1 / 2) r)) = ''0,0''"
  using key_half by (simp add: reveal_anim_of_def reveal_key_def)

lemma anim_half_factor:
  "anim_factor 800 (loadedChunks example_game) (reveal_anim_of 0 (1 / 2) (1 / 2) 100) ''0,0'' (0, 0)
     = 1 / 10"
  by (simp add: anim_factor_def anim_half_key Let_def)
    (simp add: example_game_def initial_game_def reveal_anim_of_def anim_progress_def
      easeOutQuad_def pixel_dist_def in_canvas_def chunkSize_def gradient_alpha_def)

lemma example_fog00: "fog_mask example_game ''0,0'' = Some (fill_fog new_canvas)"
  by (simp add: fog_mask_def example_game_def initial_game_def)

lemma fill_fog_new: "fill_fog new_canvas p = (if in_canvas p then 9 / 10 else 0)"
  by (simp add: fill_fog_def new_canvas_def)

lemma reveal_half_anims:
  "revealAnimations (revealArea example_game t0 (1 / 2) (1 / 2) r) =
     [reveal_anim_of t0 (1 / 2) (1 / 2) r]"
  by (simp add: revealArea_alt key_half example_fog00) (simp add: example_game_def initial_game_def)


lemma tick_half_factor:
  "tick_factor 800 (loadedChunks example_game) [reveal_anim_of 0 (1 / 2) (1 / 2) 100] ''0,0'' (0, 0)
     = 1 / 10"
  by (simp add: tick_factor_def anim_half_factor)

lemma origin_in_canvas: "in_canvas (0, 0)"
  by (simp add: in_canvas_def chunkSize_def)

lemma revealed_opacity: "opacity revealed_game ''0,0'' (0, 0) = 9 / 100"
  by (simp add: opacity_def revealed_game_def reveal_and_run_def update_fog revealArea_fog
      revealArea_chunks reveal_half_anims example_fog00 scale_canvas_def fill_fog_new
      origin_in_canvas tick_half_factor)


text \<open>
  The claim as stated fails for the restore: after a completed reveal the first pixel of the
  mask of chunk \<open>(0, 0)\<close> has opacity 0.09, and restoring a saved image that is still fogged
  at 0.9 puts it back to 0.9. It fails also for a delivery that names the chunk \<open>(0, 0)\<close>
  under a key other than its own: no mask is stored under that key, so the mask of chunk
  \<open>(0, 0)\<close> is created anew over the revealed one.
\<close>

theorem restore_thickens_counterexample:
  "opacity revealed_game ''0,0'' (0, 0) = 9 / 100
   \<and> opacity (restoreFogOfWarFromServer revealed_game [((0, 0), fill_fog new_canvas)])
        ''0,0'' (0, 0) = 9 / 10
   \<and> opacity (handleChunksData revealed_game
        [(''zz'', \<lparr>chunk_x = 0, chunk_y = 0, worldX = 0, worldY = 0\<rparr>)]) ''0,0'' (0, 0) = 9 / 10"
proof -
  have k: "getChunkKey 0 0 = ''0,0''"
    by (simp add: getChunkKey_def num_str_def)
  obtain c where c: "fog_mask revealed_game (getChunkKey 0 0) = Some c"
    unfolding k
    by (cases "fog_mask revealed_game ''0,0''")
      (simp_all add: revealed_game_def reveal_and_run_def update_fog revealArea_fog
        example_fog00)
  have restore: "opacity (restoreFogOfWarFromServer revealed_game [((0, 0), fill_fog new_canvas)])
        ''0,0'' (0, 0) = 9 / 10"
    using restore_entry_existing [OF c, of "fill_fog new_canvas"]
    by (simp add: restoreFogOfWarFromServer_def opacity_def k draw_image_clear origin_in_canvas
        fill_fog_new)
  have "fog_mask revealed_game ''zz'' = None"
    by (simp add: revealed_game_def reveal_and_run_def update_fog revealArea_fog)
      (simp add: fog_mask_def example_game_def initial_game_def)
  then have "opacity (handleChunksData revealed_game
        [(''zz'', \<lparr>chunk_x = 0, chunk_y = 0, worldX = 0, worldY = 0\<rparr>)]) ''0,0'' (0, 0) = 9 / 10"
    by (simp add: handleChunksData_def deliver_chunk_def Let_def initializeChunkFogOfWar_def
        opacity_def fog_mask_def k AList.update_conv' fill_fog_new origin_in_canvas)
  with revealed_opacity restore show ?thesis
    by simp
qed

theorem fog_never_thickens_by_ticks_or_delivery_witness:
  "fog_mask (revealArea example_game 0 (1 / 2) (1 / 2) 100) ''0,0'' = Some (fill_fog new_canvas)
   \<and> (\<forall>p. 0 \<le> fill_fog new_canvas p)
   \<and> map duration (revealAnimations (revealArea example_game 0 (1 / 2) (1 / 2) 100)) = [800]
   \<and> (\<exists>c'. fog_mask (updateRevealAnimations (revealArea example_game 0 (1 / 2) (1 / 2) 100) 800)
              ''0,0'' = Some c' \<and> c' (0, 0) \<le> 9 / 10)
   \<and> fog_mask (handleChunksData (revealArea example_game 0 (1 / 2) (1 / 2) 100)
        [(''0,0'', \<lparr>chunk_x = 0, chunk_y = 0, worldX = 0, worldY = 0\<rparr>)]) ''0,0''
       = Some (fill_fog new_canvas)
   \<and> (\<exists>c'. fog_mask (restore_entry ((0, 0), new_canvas)
               (revealArea example_game 0 (1 / 2) (1 / 2) 100)) ''0,0'' = Some c'
         \<and> c' (0, 0) = 0)
   \<and> fog_mask (initializeChunkFogOfWar (revealArea example_game 0 (1 / 2) (1 / 2) 100) 1 0)
        ''1,0'' = Some (fill_fog new_canvas)
   \<and> fill_fog new_canvas (0, 0) = 9 / 10"
proof -
  let ?g = "revealArea example_game 0 (1 / 2) (1 / 2) 100"
  let ?ch = "\<lparr>chunk_x = 0, chunk_y = 0, worldX = 0, worldY = 0\<rparr>"
  have k: "getChunkKey 0 0 = ''0,0''"
    by (simp add: getChunkKey_def num_str_def)
  have h1: "fog_mask ?g ''0,0'' = Some (fill_fog new_canvas)"
    by (simp add: revealArea_fog example_fog00)
  have h2: "\<forall>p. 0 \<le> fill_fog new_canvas p"
    by (simp add: fill_fog_new)
  have h3: "\<forall>a \<in> set (revealAnimations ?g). duration a = 800"
    by (simp add: reveal_half_anims reveal_anim_of_def)
  note t = fog_never_thickens_by_ticks_or_delivery [OF h1 h2 h3,
      of 800 0 0 0 0 "[(''0,0'', ?ch)]" 0 0 new_canvas 1 0]
  from t obtain c1 where c1: "fog_mask (updateRevealAnimations ?g 800) ''0,0'' = Some c1"
      "\<forall>p. 0 \<le> c1 p \<and> c1 p \<le> fill_fog new_canvas p"
    by blast
  from c1(2) have "c1 (0, 0) \<le> fill_fog new_canvas (0, 0)"
    by blast
  then have a: "\<exists>c'. fog_mask (updateRevealAnimations ?g 800) ''0,0'' = Some c'
      \<and> c' (0, 0) \<le> 9 / 10"
    using c1(1) by (simp add: fill_fog_new origin_in_canvas)
  from t have b: "fog_mask (handleChunksData ?g [(''0,0'', ?ch)]) ''0,0''
       = Some (fill_fog new_canvas)"
    by (simp add: k)
  from t k obtain c2 where c2: "fog_mask (restore_entry ((0, 0), new_canvas) ?g) ''0,0'' = Some c2"
      "\<forall>p. in_canvas p \<longrightarrow> c2 p = new_canvas p"
    by auto
  from c2(2) origin_in_canvas have "c2 (0, 0) = new_canvas (0, 0)"
    by blast
  with c2(1) have c: "\<exists>c'. fog_mask (restore_entry ((0, 0), new_canvas) ?g) ''0,0'' = Some c'
         \<and> c' (0, 0) = 0"
    by (simp add: new_canvas_def)
  have d: "map duration (revealAnimations ?g) = [800]"
    by (simp add: reveal_half_anims reveal_anim_of_def)
  have k10: "getChunkKey 1 0 = ''1,0''"
    by (simp add: getChunkKey_def num_str_def)
  from t have e: "fog_mask (initializeChunkFogOfWar ?g 1 0) ''1,0'' = Some (fill_fog new_canvas)"
    by (simp add: k10)
  from t have "\<forall>p. in_canvas p \<longrightarrow> fill_fog new_canvas p = 9 / 10"
    by blast
  with origin_in_canvas have f: "fill_fog new_canvas (0, 0) = 9 / 10"
    by blast
  from h1 h2 d a b c e f show ?thesis
    by blast
qed


lemma run_ticks_mono:
  assumes "fog_mask g k = Some c" and "\<forall>p. 0 \<le> c p"
  shows "\<exists>c'. fog_mask (run_ticks g ts) k = Some c' \<and> (\<forall>p. 0 \<le> c' p \<and> c' p \<le> c p)"
proof -
  let ?f = "run_factor (loadedChunks g) (revealAnimations g) ts k"
  have run: "fog_mask (run_ticks g ts) k = Some (scale_canvas ?f c)"
    by (simp add: run_ticks_fog assms(1))
  have "0 \<le> scale_canvas ?f c p \<and> scale_canvas ?f c p \<le> c p" for p
  proof -
    from assms(2) have c: "0 \<le> c p"
      by (rule spec)
    from run_factor_bounds [of "loadedChunks g" "revealAnimations g" ts k p]
    have f: "0 \<le> ?f p" "?f p \<le> 1"
      by simp_all
    from c f have "c p * ?f p \<le> c p * 1"
      by (intro mult_left_mono) simp_all
    with c f show ?thesis
      by (simp add: scale_canvas_def)
  qed
  with run show ?thesis
    by blast
qed








































end
